theory Spec2Isabelle
  imports Complex_Main "HOL-Library.Multiset" "HOL-Library.Word"
begin

section \<open>EduGap analysis notebook: the data model\<close>

text \<open>
  The notebook \<^verbatim>\<open>EduGap_Analysis_Notebook.ipynb\<close> works on one pandas frame, \<^verbatim>\<open>data\<close>.
  Its cells are modelled as functions from the frame before the cell to the frame after
  it. A frame is a list of rows; a column is the list of one field over the rows.
  A score is a finite number, an integer or a float of 64 bits, and is given by its
  value, a rational number; the cell \<^verbatim>\<open>data.dropna(inplace=True)\<close> runs first, so no
  score is missing. What pandas and numpy compute from scores in machine arithmetic
  (differences, quantiles, the comparison with a quantile, the order of equal values
  after sorting) is a parameter of the cell or function that uses it.
\<close>

subsection \<open>Categorical encoding\<close>

text \<open>
  \<^verbatim>\<open>
  data['gender'] = data['gender'].map({'M': 0, 'F': 1})
  data['education'] = data['education'].map({'none': 0, 'high school': 1,
      'some college': 2, 'associate': 3, 'bachelor': 4, 'master': 5})
  data['employment'] = data['employment'].map({'unemployed': 0, 'part-time': 1,
      'full-time': 2})
  \<close>
  \<^verbatim>\<open>Series.map\<close> with a dictionary looks every value up; a value that is not a key
  becomes NaN. NaN is \<open>None\<close> here.
\<close>

record 'c demographics =
  gender :: 'c
  age :: rat
  education :: 'c
  employment :: 'c

definition gender_codes :: "string \<rightharpoonup> int" where
  "gender_codes = [''M'' \<mapsto> 0, ''F'' \<mapsto> 1]"

definition education_codes :: "string \<rightharpoonup> int" where
  "education_codes = [''none'' \<mapsto> 0, ''high school'' \<mapsto> 1, ''some college'' \<mapsto> 2,
     ''associate'' \<mapsto> 3, ''bachelor'' \<mapsto> 4, ''master'' \<mapsto> 5]"

definition employment_codes :: "string \<rightharpoonup> int" where
  "employment_codes = [''unemployed'' \<mapsto> 0, ''part-time'' \<mapsto> 1, ''full-time'' \<mapsto> 2]"

definition encode_row :: "string demographics \<Rightarrow> int option demographics" where
  "encode_row r =
     \<lparr>gender = gender_codes (gender r), age = age r,
      education = education_codes (education r),
      employment = employment_codes (employment r)\<rparr>"

definition encode_cell :: "string demographics list \<Rightarrow> int option demographics list" where
  "encode_cell data = map encode_row data"

subsection \<open>Gain columns\<close>

text \<open>
  \<^verbatim>\<open>
  data['Computer_Gain'] = data['Post_Training_Basic_Computer_Knowledge_Score']
                          - data['Basic_Computer_Knowledge_Score']
  data['Internet_Gain'] = data['Post_Training_Internet_Usage_Score'] - data['Internet_Usage_Score']
  data['Mobile_Gain'] = data['Post_Training_Mobile_Literacy_Score'] - data['Mobile_Literacy_Score']
  \<close>
  The subtraction of two columns of one frame is row by row. It is the subtraction of
  pandas for the dtypes of the two columns: that of 64-bit integers, which wraps around,
  or that of 64-bit floats, which rounds and can overflow. The cell is therefore modelled
  for any subtraction of the two cells of a row, one for each domain, with any type \<open>'g\<close>
  of results; a score itself is a finite number, given by its value.
\<close>

record scores =
  Basic_Computer_Knowledge_Score :: rat
  Internet_Usage_Score :: rat
  Mobile_Literacy_Score :: rat
  Post_Training_Basic_Computer_Knowledge_Score :: rat
  Post_Training_Internet_Usage_Score :: rat
  Post_Training_Mobile_Literacy_Score :: rat

record 'g gains = scores +
  Computer_Gain :: 'g
  Internet_Gain :: 'g
  Mobile_Gain :: 'g

definition gain_row ::
  "(rat \<Rightarrow> rat \<Rightarrow> 'g) \<Rightarrow> (rat \<Rightarrow> rat \<Rightarrow> 'g) \<Rightarrow> (rat \<Rightarrow> rat \<Rightarrow> 'g) \<Rightarrow> scores \<Rightarrow> 'g gains" where
  "gain_row sub_computer sub_internet sub_mobile r = scores.extend r (gains.fields
     (sub_computer (Post_Training_Basic_Computer_Knowledge_Score r) (Basic_Computer_Knowledge_Score r))
     (sub_internet (Post_Training_Internet_Usage_Score r) (Internet_Usage_Score r))
     (sub_mobile (Post_Training_Mobile_Literacy_Score r) (Mobile_Literacy_Score r)))"

definition gain_cell ::
  "(rat \<Rightarrow> rat \<Rightarrow> 'g) \<Rightarrow> (rat \<Rightarrow> rat \<Rightarrow> 'g) \<Rightarrow> (rat \<Rightarrow> rat \<Rightarrow> 'g) \<Rightarrow> scores list \<Rightarrow>
   'g gains list" where
  "gain_cell sub_computer sub_internet sub_mobile data =
     map (gain_row sub_computer sub_internet sub_mobile) data"

text \<open>
  The subtraction of two int64 columns. A cell of such a column is an integer from
  \<open>- 2\<^sup>6\<^sup>3\<close> up to \<open>2\<^sup>6\<^sup>3 - 1\<close>, kept in a word of 64 bits; numpy subtracts the two
  words and reads the result as a signed integer, without any check for overflow.
\<close>

definition is_int64 :: "rat \<Rightarrow> bool" where
  "is_int64 x \<longleftrightarrow> x = of_int \<lfloor>x\<rfloor> \<and> - (2 ^ 63) \<le> x \<and> x < 2 ^ 63"

definition int64 :: "rat \<Rightarrow> 64 word" where
  "int64 x = word_of_int \<lfloor>x\<rfloor>"

definition sub_int64 :: "rat \<Rightarrow> rat \<Rightarrow> rat" where
  "sub_int64 a b = of_int (sint (int64 a - int64 b))"

definition gain_cell_int64 :: "scores list \<Rightarrow> rat gains list" where
  "gain_cell_int64 data = gain_cell sub_int64 sub_int64 sub_int64 data"

subsection \<open>Label construction\<close>

record 'g labelled = "'g gains" +
  Computer_Skill_Label :: int
  Internet_Usage_Label :: int
  Mobile_Literacy_Label :: int
  Computer_Gain_Label :: int
  Internet_Gain_Label :: int
  Mobile_Gain_Label :: int

text \<open>
  The function every label column of the first cell applies, to a score and a literal:
  \<^verbatim>\<open>lambda x: 0 if x <= t else 1\<close>.
\<close>

definition split_label :: "rat \<Rightarrow> rat \<Rightarrow> int" where
  "split_label t x = (if x \<le> t then 0 else 1)"

text \<open>
  The first labelling cell. Each of its six assignments reads a score column only, so
  the six new fields of a row are computed from the row.
  \<^verbatim>\<open>
  data['Computer_Skill_Label'] = data['Basic_Computer_Knowledge_Score'].apply(lambda x: 0 if x <= 25 else 1)
  data['Internet_Usage_Label'] = data['Internet_Usage_Score'].apply(lambda x: 0 if x <= 25 else 1)
  data['Mobile_Literacy_Label'] = data['Mobile_Literacy_Score'].apply(lambda x: 0 if x <= 26 else 1)
  data['Computer_Gain_Label'] = data['Basic_Computer_Knowledge_Score'].apply(lambda x: 0 if x <= 25 else 1)
  data['Internet_Gain_Label'] = data['Internet_Usage_Score'].apply(lambda x: 0 if x <= 25 else 1)
  data['Mobile_Gain_Label'] = data['Mobile_Literacy_Score'].apply(lambda x: 0 if x <= 26 else 1)
  \<close>
\<close>

definition median_label_row :: "'g gains \<Rightarrow> 'g labelled" where
  "median_label_row r = gains.extend r (labelled.fields
     (split_label 25 (Basic_Computer_Knowledge_Score r))
     (split_label 25 (Internet_Usage_Score r))
     (split_label 26 (Mobile_Literacy_Score r))
     (split_label 25 (Basic_Computer_Knowledge_Score r))
     (split_label 25 (Internet_Usage_Score r))
     (split_label 26 (Mobile_Literacy_Score r)))"

definition median_label_cell :: "'g gains list \<Rightarrow> 'g labelled list" where
  "median_label_cell data = map median_label_row data"

text \<open>
  \<^verbatim>\<open>lambda x: 0 if x <= thr else 1\<close> where \<open>thr\<close> is what a quantile function of pandas or
  numpy returned, a 64-bit float that may be NaN or infinite. \<open>le x thr\<close> is Python's
  \<^verbatim>\<open>x <= thr\<close> for a score and such a result; \<open>'t\<close> is the type of the results.
\<close>

definition quantile_label :: "(rat \<Rightarrow> 't \<Rightarrow> bool) \<Rightarrow> 't \<Rightarrow> rat \<Rightarrow> int" where
  "quantile_label le thr x = (if le x thr then 0 else 1)"

text \<open>
  The second labelling cell overwrites the six label columns. The function of each
  row computes its quantile from a whole column of \<^verbatim>\<open>data\<close>; the assignments write
  label columns only, so every quantile is one of the frame the cell starts with.
  \<^verbatim>\<open>
  data['Computer_Skill_Label'] = data['Basic_Computer_Knowledge_Score'].apply(
      lambda x: 0 if x <= data['Basic_Computer_Knowledge_Score'].quantile(0.63) else 1)
  data['Internet_Usage_Label'] = data['Internet_Usage_Score'].apply(
      lambda x: 0 if x <= data['Internet_Usage_Score'].quantile(0.56) else 1)
  data['Mobile_Literacy_Label'] = data['Mobile_Literacy_Score'].apply(
      lambda x: 0 if x <= data['Mobile_Literacy_Score'].quantile(0.69) else 1)
  data['Computer_Gain_Label'] = data['Basic_Computer_Knowledge_Score'].apply(
      lambda x: 0 if x <= np.quantile(data['Computer_Gain'], .56) else 1)
  data['Internet_Gain_Label'] = data['Internet_Usage_Score'].apply(
      lambda x: 0 if x <= np.quantile(data['Internet_Gain'], .55) else 1)
  data['Mobile_Gain_Label'] = data['Mobile_Literacy_Score'].apply(
      lambda x: 0 if x <= np.quantile(data['Mobile_Gain'], .6) else 1)
  \<close>
  The two quantile functions are those of the libraries, which compute in 64-bit floats:
  \<open>series_quantile\<close> is \<^verbatim>\<open>Series.quantile\<close> of pandas, on a score column, and
  \<open>np_quantile\<close> is \<^verbatim>\<open>np.quantile\<close>, on a gain column. Their second argument is the
  literal written in the cell. The cell is modelled for any two such functions and any
  comparison \<open>le\<close>.
\<close>

definition quantile_label_row ::
  "(rat list \<Rightarrow> rat \<Rightarrow> 't) \<Rightarrow> ('g list \<Rightarrow> rat \<Rightarrow> 't) \<Rightarrow> (rat \<Rightarrow> 't \<Rightarrow> bool) \<Rightarrow>
   'g labelled list \<Rightarrow> 'g labelled \<Rightarrow> 'g labelled" where
  "quantile_label_row series_quantile np_quantile le data r = r
     \<lparr>Computer_Skill_Label :=
        quantile_label le (series_quantile (map Basic_Computer_Knowledge_Score data) (63 / 100))
          (Basic_Computer_Knowledge_Score r),
      Internet_Usage_Label :=
        quantile_label le (series_quantile (map Internet_Usage_Score data) (56 / 100))
          (Internet_Usage_Score r),
      Mobile_Literacy_Label :=
        quantile_label le (series_quantile (map Mobile_Literacy_Score data) (69 / 100))
          (Mobile_Literacy_Score r),
      Computer_Gain_Label :=
        quantile_label le (np_quantile (map Computer_Gain data) (56 / 100))
          (Basic_Computer_Knowledge_Score r),
      Internet_Gain_Label :=
        quantile_label le (np_quantile (map Internet_Gain data) (55 / 100))
          (Internet_Usage_Score r),
      Mobile_Gain_Label :=
        quantile_label le (np_quantile (map Mobile_Gain data) (6 / 10))
          (Mobile_Literacy_Score r)\<rparr>"

definition quantile_label_cell ::
  "(rat list \<Rightarrow> rat \<Rightarrow> 't) \<Rightarrow> ('g list \<Rightarrow> rat \<Rightarrow> 't) \<Rightarrow> (rat \<Rightarrow> 't \<Rightarrow> bool) \<Rightarrow>
   'g labelled list \<Rightarrow> 'g labelled list" where
  "quantile_label_cell series_quantile np_quantile le data =
     map (quantile_label_row series_quantile np_quantile le data) data"

subsection \<open>The quantile and the median in exact arithmetic\<close>

text \<open>
  The linear interpolation that \<^verbatim>\<open>Series.quantile(q)\<close> and \<^verbatim>\<open>np.quantile(a, q)\<close> use
  by default, computed without rounding: on the sorted values, the position
  \<open>h = (n - 1) q\<close> lies between the indices \<open>\<lfloor>h\<rfloor>\<close> and \<open>\<lfloor>h\<rfloor> + 1\<close>, and the result
  interpolates between the two values; of an empty column it is NaN (\<open>None\<close>). The
  libraries compute the same in 64-bit floats and may differ from it by rounding; it
  stands for them only where that is said. \<open>q\<close> lies between 0 and 1.
\<close>

definition exact_quantile :: "rat list \<Rightarrow> rat \<Rightarrow> rat option" where
  "exact_quantile xs q =
     (if xs = [] then None
      else let s = sort xs;
               h = of_nat (length xs - 1) * q;
               lo = nat \<lfloor>h\<rfloor>;
               hi = min (lo + 1) (length xs - 1)
           in Some (s ! lo + (h - of_nat lo) * (s ! hi - s ! lo)))"

text \<open>The comparison with such a quantile; a comparison with NaN is false.\<close>

definition exact_le :: "rat \<Rightarrow> rat option \<Rightarrow> bool" where
  "exact_le x thr = (case thr of None \<Rightarrow> False | Some t \<Rightarrow> x \<le> t)"

definition exact_quantile_label_cell :: "rat labelled list \<Rightarrow> rat labelled list" where
  "exact_quantile_label_cell data =
     quantile_label_cell exact_quantile exact_quantile exact_le data"

text \<open>
  The median the notebook's text speaks of: the middle value of the sorted column, or
  the mean of the two middle values; NaN of an empty one. No cell of the notebook
  calls it.
\<close>

definition median :: "rat list \<Rightarrow> rat option" where
  "median xs =
     (if xs = [] then None
      else let s = sort xs; n = length xs
           in Some (if odd n then s ! (n div 2) else (s ! (n div 2 - 1) + s ! (n div 2)) / 2))"

section \<open>Group aggregation and reporting\<close>

text \<open>
  The two functions of the last cell take any frame and the names of its columns. Here a
  frame maps a column's name to the column; a cell of a column is a value or NaN
  (\<open>None\<close>), and the values are ordered, as sorting them needs.
\<close>

type_synonym 'v frame = "string \<rightharpoonup> 'v option list"

datatype error =
  KeyError string
  | NotMultiIndex
  | LengthMismatch nat

text \<open>
  \<^verbatim>\<open>df.groupby(group_col)[label_col]\<close>: the rows of the frame as pairs of a group key and
  a label. A name that is no column raises KeyError. \<^verbatim>\<open>groupby\<close> leaves out the rows
  whose key is NaN, and \<^verbatim>\<open>value_counts\<close> those whose label is NaN.
\<close>

definition present :: "'v option \<times> 'v option \<Rightarrow> ('v \<times> 'v) option" where
  "present p = (case p of (Some g, Some l) \<Rightarrow> Some (g, l) | _ \<Rightarrow> None)"

definition groupby :: "'v frame \<Rightarrow> string \<Rightarrow> string \<Rightarrow> error + ('v \<times> 'v) list" where
  "groupby df group_col label_col =
     (case df group_col of
        None \<Rightarrow> Inl (KeyError group_col)
      | Some gs \<Rightarrow>
          (case df label_col of
             None \<Rightarrow> Inl (KeyError label_col)
           | Some ls \<Rightarrow> Inr (List.map_filter present (zip gs ls))))"

text \<open>
  \<^verbatim>\<open>.value_counts(normalize=True)\<close>: for every pair of a key and a label that occurs,
  the share of the label among the rows of the key.
\<close>

definition value_counts :: "('v \<times> 'v) list \<Rightarrow> 'v \<times> 'v \<Rightarrow> rat option" where
  "value_counts ps = (\<lambda>(g, l).
     if (g, l) \<in> set ps
     then Some (of_nat (length (filter (\<lambda>p. p = (g, l)) ps)) /
                of_nat (length (filter (\<lambda>p. fst p = g) ps)))
     else None)"

text \<open>
  \<^verbatim>\<open>.unstack()\<close>: one row for every key and one column for every label, both sorted; a
  pair that does not occur gives NaN. \<^verbatim>\<open>.fillna(0)\<close> then puts 0 there. When the group
  column is the label column itself, \<^verbatim>\<open>value_counts\<close> returns a series with a plain
  index, and \<^verbatim>\<open>.unstack()\<close> raises a ValueError (index must be a MultiIndex to unstack).
\<close>

record 'v unstacked =
  index :: "'v list"
  columns :: "'v list"
  cells :: "rat option list list"

definition unstack :: "('v::linorder \<times> 'v) list \<Rightarrow> 'v unstacked" where
  "unstack ps =
     (let keys = sort (remdups (map fst ps));
          labels = sort (remdups (map snd ps))
      in \<lparr>index = keys, columns = labels,
          cells = map (\<lambda>g. map (\<lambda>l. value_counts ps (g, l)) labels) keys\<rparr>)"

definition fillna :: "rat \<Rightarrow> 'v unstacked \<Rightarrow> 'v unstacked" where
  "fillna v t =
     t\<lparr>cells := map (map (\<lambda>c. case c of None \<Rightarrow> Some v | Some x \<Rightarrow> Some x)) (cells t)\<rparr>"

text \<open>
  \<^verbatim>\<open>grouped.columns = ['Below Average', 'Above Average']\<close> raises a ValueError (length
  mismatch) unless the frame has two columns. The renamed frame is kept as the list of
  its rows: the key, the cell of 'Below Average' and the cell of 'Above Average'.
\<close>

definition filled :: "rat option \<Rightarrow> rat" where
  "filled c = (case c of None \<Rightarrow> 0 | Some x \<Rightarrow> x)"

definition rename_columns :: "'v unstacked \<Rightarrow> error + ('v \<times> rat \<times> rat) list" where
  "rename_columns t =
     (if length (columns t) = 2
      then Inr (map (\<lambda>(g, row). (g, filled (row ! 0), filled (row ! 1))) (zip (index t) (cells t)))
      else Inl (LengthMismatch (length (columns t))))"

definition grouped_table ::
  "('v::linorder) frame \<Rightarrow> string \<Rightarrow> string \<Rightarrow> error + ('v \<times> rat \<times> rat) list" where
  "grouped_table df group_col label_col =
     (case groupby df group_col label_col of
        Inl e \<Rightarrow> Inl e
      | Inr ps \<Rightarrow>
          if group_col = label_col then Inl NotMultiIndex
          else rename_columns (fillna 0 (unstack ps)))"

text \<open>
  \<^verbatim>\<open>
  def averages_calculate(df, group_col, label_col, title_prefix=""):
      grouped = df.groupby(group_col)[label_col].value_counts(normalize=True).unstack().fillna(0)
      grouped.columns = ['Below Average', 'Above Average']
      print(grouped)
  \<close>
  The result is the table it prints; \<^verbatim>\<open>title_prefix\<close> is not used.
\<close>

definition averages_calculate ::
  "('v::linorder) frame \<Rightarrow> string \<Rightarrow> string \<Rightarrow> error + ('v \<times> rat \<times> rat) list" where
  "averages_calculate df group_col label_col = grouped_table df group_col label_col"

text \<open>
  \<^verbatim>\<open>grouped['Below Average'].sort_values(ascending=False)\<close> sorts the series by
  descending value. The function does not choose the kind of sort, so it is the default
  of pandas, 'quicksort', which is not stable: the order in which equal values come out
  is up to numpy. The sort is therefore a parameter, \<open>sort_values\<close>, of the function;
  \<open>sorts_descending\<close> says what every sort does. \<^verbatim>\<open>.head(n)\<close> takes the first \<open>n\<close>
  entries, and all but the last \<open>- n\<close> when \<open>n\<close> is negative.
\<close>

definition sorts_descending :: "(('v \<times> rat) list \<Rightarrow> ('v \<times> rat) list) \<Rightarrow> bool" where
  "sorts_descending sort_values \<longleftrightarrow>
     (\<forall>s. mset (sort_values s) = mset s \<and>
          sorted_wrt (\<lambda>x y. snd y \<le> snd x) (sort_values s))"

text \<open>
  Two such sorts. pandas reverses the series, sorts it in ascending order and reverses the
  result: with an ascending sort that keeps equal values in their order, equal values
  come out in the order of the index, and with one that reverses them, in the reverse
  order of the index.
\<close>

definition sort_values_keeping_ties :: "('v \<times> rat) list \<Rightarrow> ('v \<times> rat) list" where
  "sort_values_keeping_ties s = rev (sort_key snd (rev s))"

definition sort_values_reversing_ties :: "('v \<times> rat) list \<Rightarrow> ('v \<times> rat) list" where
  "sort_values_reversing_ties s = rev (sort_key snd s)"

definition head :: "int \<Rightarrow> 'a list \<Rightarrow> 'a list" where
  "head n xs = (if 0 \<le> n then take (nat n) xs else take (length xs - nat (- n)) xs)"

text \<open>
  \<^verbatim>\<open>
  def bar_graph(df, group_cols, label_col, top_n, title_prefix):
      worst_groups = []
      proportions = []
      for group in group_cols:
          grouped = df.groupby(group)[label_col].value_counts(normalize=True).unstack().fillna(0)
          grouped.columns = ['Below Average', 'Above Average']
          top_worst = grouped['Below Average'].sort_values(ascending=False).head(top_n)
          for idx, val in top_worst.items():
              worst_groups.append(f"{group}: {idx}")
              proportions.append(val)
      ...
      bars = plt.bar(worst_groups, proportions, color='firebrick')
  \<close>
  The result is the two lists it hands to the plot. \<open>fmt\<close> is Python's formatting of a
  key inside the f-string.
\<close>

definition top_worst ::
  "(('v \<times> rat) list \<Rightarrow> ('v \<times> rat) list) \<Rightarrow> ('v \<times> rat \<times> rat) list \<Rightarrow> int \<Rightarrow> ('v \<times> rat) list" where
  "top_worst sort_values grouped top_n =
     head top_n (sort_values (map (\<lambda>(g, below, above). (g, below)) grouped))"

fun bar_graph_loop ::
  "(('v \<times> rat) list \<Rightarrow> ('v \<times> rat) list) \<Rightarrow> ('v \<Rightarrow> string) \<Rightarrow> ('v::linorder) frame \<Rightarrow> string \<Rightarrow>
   int \<Rightarrow> string list \<Rightarrow> string list \<times> rat list \<Rightarrow> error + string list \<times> rat list" where
  "bar_graph_loop sort_values fmt df label_col top_n [] acc = Inr acc"
| "bar_graph_loop sort_values fmt df label_col top_n (grp # rest) (worst_groups, proportions) =
     (case grouped_table df grp label_col of
        Inl e \<Rightarrow> Inl e
      | Inr grouped \<Rightarrow>
          bar_graph_loop sort_values fmt df label_col top_n rest
            (worst_groups @
               map (\<lambda>(idx, val). grp @ '': '' @ fmt idx) (top_worst sort_values grouped top_n),
             proportions @ map (\<lambda>(idx, val). val) (top_worst sort_values grouped top_n)))"

definition bar_graph ::
  "(('v \<times> rat) list \<Rightarrow> ('v \<times> rat) list) \<Rightarrow> ('v \<Rightarrow> string) \<Rightarrow> ('v::linorder) frame \<Rightarrow>
   string list \<Rightarrow> string \<Rightarrow> int \<Rightarrow> error + string list \<times> rat list" where
  "bar_graph sort_values fmt df group_cols label_col top_n =
     bar_graph_loop sort_values fmt df label_col top_n group_cols ([], [])"

subsection \<open>Notions of the specification\<close>

text \<open>
  The share of the label \<open>l\<close> among the rows of the group \<open>g\<close>, by counting; it is 0
  when the group has no row with that label.
\<close>

definition proportion :: "('v \<times> 'v) list \<Rightarrow> 'v \<Rightarrow> 'v \<Rightarrow> rat" where
  "proportion ps g l =
     of_nat (length (filter (\<lambda>p. p = (g, l)) ps)) / of_nat (length (filter (\<lambda>p. fst p = g) ps))"


text \<open>Python's \<^verbatim>\<open>str\<close> of a natural number, for the examples.\<close>

fun str_nat :: "nat \<Rightarrow> string" where
  "str_nat n =
     (if n < 10 then [char_of (48 + n)]
      else str_nat (n div 10) @ [char_of (48 + n mod 10)])"

declare str_nat.simps [simp del]

section \<open>Example frames\<close>

definition respondent :: "rat \<Rightarrow> rat \<Rightarrow> rat \<Rightarrow> rat \<Rightarrow> rat \<Rightarrow> rat \<Rightarrow> scores" where
  "respondent c i m c2 i2 m2 =
     \<lparr>Basic_Computer_Knowledge_Score = c, Internet_Usage_Score = i,
      Mobile_Literacy_Score = m, Post_Training_Basic_Computer_Knowledge_Score = c2,
      Post_Training_Internet_Usage_Score = i2, Post_Training_Mobile_Literacy_Score = m2\<rparr>"

definition falling_scores :: "scores list" where
  "falling_scores = [respondent 30 30 30 20 20 20, respondent 10 10 10 45 45 45]"

definition extreme_scores :: "scores list" where
  "extreme_scores = [respondent (- 1) 0 1 (2 ^ 63 - 1) 0 (- (2 ^ 63))]"

definition low_scores :: "scores list" where
  "low_scores = [respondent 10 10 10 30 30 30, respondent 20 20 20 30 30 30,
     respondent 22 22 22 30 30 30]"

definition equal_gains :: "scores list" where
  "equal_gains = [respondent 10 10 10 20 20 20, respondent 30 30 30 40 40 40]"

definition unmapped_education :: "string demographics list" where
  "unmapped_education =
     [\<lparr>gender = ''M'', age = 30, education = ''phd'', employment = ''full-time''\<rparr>]"

definition single_class_frame :: "nat frame" where
  "single_class_frame =
     [''gender'' \<mapsto> map Some [0, 1, 1], ''label'' \<mapsto> map Some [0, 0, 0]]"

definition mixed_frame :: "nat frame" where
  "mixed_frame =
     [''gender'' \<mapsto> map Some [1, 0, 1, 1], ''label'' \<mapsto> map Some [0, 1, 0, 1]]"

definition tie_frame :: "nat frame" where
  "tie_frame =
     [''education'' \<mapsto> map Some [2, 2, 1, 1], ''label'' \<mapsto> map Some [0, 1, 0, 1]]"

definition tie_frame_reordered :: "nat frame" where
  "tie_frame_reordered =
     [''education'' \<mapsto> map Some [1, 1, 2, 2], ''label'' \<mapsto> map Some [0, 1, 0, 1]]"

definition scenario_frame :: "nat frame" where
  "scenario_frame =
     [''education'' \<mapsto> map Some (replicate 10 1 @ replicate 10 2 @ replicate 10 3),
      ''label'' \<mapsto> map Some (replicate 8 0 @ replicate 2 1 @ replicate 3 0 @ replicate 7 1 @
         replicate 9 0 @ replicate 1 1)]"


section \<open>Gain columns\<close>

lemma sint_sub_word64:
  "sint (word_of_int x - word_of_int y :: 64 word) = (x - y + 2 ^ 63) mod 2 ^ 64 - 2 ^ 63"
  by (simp only: wi_hom_sub int_word_sint) simp

lemma sub_int64_mod:
  "sub_int64 a b = of_int ((\<lfloor>a\<rfloor> - \<lfloor>b\<rfloor> + 2 ^ 63) mod 2 ^ 64 - 2 ^ 63)"
  by (simp only: sub_int64_def int64_def sint_sub_word64)

lemma is_int64_sub_int64: "is_int64 (sub_int64 a b)"
proof -
  define z where "z = (\<lfloor>a\<rfloor> - \<lfloor>b\<rfloor> + 2 ^ 63) mod (2 ^ 64 :: int)"
  have z0: "0 \<le> z" unfolding z_def by (rule pos_mod_sign) simp
  have z1: "z < 2 ^ 64" unfolding z_def by (rule pos_mod_bound) simp
  from z0 have "- (2 ^ 63) \<le> z - 2 ^ 63" by simp
  then have "rat_of_int (- (2 ^ 63)) \<le> rat_of_int (z - 2 ^ 63)"
    by (rule iffD2 [OF of_int_le_iff])
  then have lo: "- (2 ^ 63) \<le> rat_of_int (z - 2 ^ 63)" by simp
  from z1 have "z - 2 ^ 63 < 2 ^ 63" by simp
  then have "rat_of_int (z - 2 ^ 63) < rat_of_int (2 ^ 63)"
    by (rule iffD2 [OF of_int_less_iff])
  then have hi: "rat_of_int (z - 2 ^ 63) < 2 ^ 63" by simp
  have e: "sub_int64 a b = rat_of_int (z - 2 ^ 63)"
    by (simp only: sub_int64_mod z_def)
  show ?thesis unfolding is_int64_def e floor_of_int using lo hi by blast
qed

lemma sub_int64_wraps:
  assumes "is_int64 a" "is_int64 b"
  shows "\<exists>k :: int. sub_int64 a b = a - b + of_int k * 2 ^ 64"
proof -
  define z where "z = \<lfloor>a\<rfloor> - \<lfloor>b\<rfloor> + (2 ^ 63 :: int)"
  from assms have ab: "a - b = rat_of_int (\<lfloor>a\<rfloor> - \<lfloor>b\<rfloor>)"
    by (simp add: is_int64_def)
  have "z mod 2 ^ 64 = z - (z div 2 ^ 64) * 2 ^ 64"
    by (simp add: minus_div_mult_eq_mod)
  then have "z mod 2 ^ 64 - 2 ^ 63 = \<lfloor>a\<rfloor> - \<lfloor>b\<rfloor> + (- (z div 2 ^ 64)) * 2 ^ 64"
    by (simp add: z_def)
  then have "sub_int64 a b = rat_of_int (\<lfloor>a\<rfloor> - \<lfloor>b\<rfloor> + (- (z div 2 ^ 64)) * 2 ^ 64)"
    by (simp only: sub_int64_mod z_def)
  also have "\<dots> = a - b + of_int (- (z div 2 ^ 64)) * 2 ^ 64"
    by (simp add: ab)
  finally show ?thesis by blast
qed

lemma sub_int64_exact:
  assumes "is_int64 a" "is_int64 b" "is_int64 (a - b)"
  shows "sub_int64 a b = a - b"
proof -
  from assms(1,2) have ab: "a - b = rat_of_int (\<lfloor>a\<rfloor> - \<lfloor>b\<rfloor>)"
    by (simp add: is_int64_def)
  from assms(3) have "- (2 ^ 63) \<le> rat_of_int (\<lfloor>a\<rfloor> - \<lfloor>b\<rfloor>)" "rat_of_int (\<lfloor>a\<rfloor> - \<lfloor>b\<rfloor>) < 2 ^ 63"
    unfolding ab by (simp_all add: is_int64_def)
  then have "rat_of_int (- (2 ^ 63)) \<le> rat_of_int (\<lfloor>a\<rfloor> - \<lfloor>b\<rfloor>)"
    and "rat_of_int (\<lfloor>a\<rfloor> - \<lfloor>b\<rfloor>) < rat_of_int (2 ^ 63)"
    by simp_all
  then have "- (2 ^ 63) \<le> \<lfloor>a\<rfloor> - \<lfloor>b\<rfloor>" and "\<lfloor>a\<rfloor> - \<lfloor>b\<rfloor> < 2 ^ 63"
    by (simp_all only: of_int_le_iff of_int_less_iff)
  then have "(\<lfloor>a\<rfloor> - \<lfloor>b\<rfloor> + 2 ^ 63) mod 2 ^ 64 = \<lfloor>a\<rfloor> - \<lfloor>b\<rfloor> + 2 ^ 63"
    by (intro mod_pos_pos_trivial) simp_all
  then show ?thesis
    by (simp only: sub_int64_mod ab add_diff_cancel)
qed

lemma gain_of_int64:
  assumes "is_int64 a" "is_int64 b"
  shows "is_int64 (sub_int64 a b) \<and>
     (\<exists>k :: int. sub_int64 a b = a - b + of_int k * 2 ^ 64) \<and>
     (is_int64 (a - b) \<longrightarrow> sub_int64 a b = a - b \<and> (a < b \<longrightarrow> sub_int64 a b < 0))"
  using is_int64_sub_int64 [of a b] sub_int64_wraps [OF assms] sub_int64_exact [OF assms]
  by auto

text \<open>
  C5 as the specification states it fails for an int64 column: the respondent with the
  computer scores -1 before and \<open>2\<^sup>6\<^sup>3 - 1\<close> after has the difference \<open>2\<^sup>6\<^sup>3\<close>, and the gain
  column holds \<open>- 2\<^sup>6\<^sup>3\<close>; with the mobile scores 1 before and \<open>- 2\<^sup>6\<^sup>3\<close> after, the score has
  fallen and the gain column holds a positive number.
\<close>

theorem gain_wraps_counterexample:
  "is_int64 (Basic_Computer_Knowledge_Score (extreme_scores ! 0)) \<and>
   is_int64 (Post_Training_Basic_Computer_Knowledge_Score (extreme_scores ! 0)) \<and>
   Post_Training_Basic_Computer_Knowledge_Score (extreme_scores ! 0)
     - Basic_Computer_Knowledge_Score (extreme_scores ! 0) = 2 ^ 63 \<and>
   Computer_Gain (gain_cell_int64 extreme_scores ! 0) = - (2 ^ 63) \<and>
   Post_Training_Mobile_Literacy_Score (extreme_scores ! 0)
     < Mobile_Literacy_Score (extreme_scores ! 0) \<and>
   Mobile_Gain (gain_cell_int64 extreme_scores ! 0) = 2 ^ 63 - 1"
  by code_simp

text \<open>
  C5, as the code has it. In every row each gain is the difference that pandas computes
  from the post-training and the pre-training score of the row and of the domain, and
  nothing is done to it: no clipping, no rounding step; the score columns are unchanged.
  For int64 columns this difference is taken in 64 bits: it is an int64 again and differs
  from post minus pre by a multiple of \<open>2\<^sup>6\<^sup>4\<close>. Whenever post minus pre is itself an int64,
  the gain is exactly post minus pre, and a negative gain (post below pre) is kept.
\<close>

theorem gain_is_post_minus_pre:
  "length (gain_cell sub_c sub_i sub_m data) = length data \<and>
   (\<forall>i < length data.
      scores.truncate (gain_cell sub_c sub_i sub_m data ! i) = data ! i \<and>
      Computer_Gain (gain_cell sub_c sub_i sub_m data ! i) =
        sub_c (Post_Training_Basic_Computer_Knowledge_Score (data ! i))
          (Basic_Computer_Knowledge_Score (data ! i)) \<and>
      Internet_Gain (gain_cell sub_c sub_i sub_m data ! i) =
        sub_i (Post_Training_Internet_Usage_Score (data ! i)) (Internet_Usage_Score (data ! i)) \<and>
      Mobile_Gain (gain_cell sub_c sub_i sub_m data ! i) =
        sub_m (Post_Training_Mobile_Literacy_Score (data ! i)) (Mobile_Literacy_Score (data ! i))) \<and>
   (is_int64 post \<and> is_int64 pre \<longrightarrow>
      is_int64 (sub_int64 post pre) \<and>
      (\<exists>k :: int. sub_int64 post pre = post - pre + of_int k * 2 ^ 64) \<and>
      (is_int64 (post - pre) \<longrightarrow>
         sub_int64 post pre = post - pre \<and> (post < pre \<longrightarrow> sub_int64 post pre < 0)))"
proof (intro conjI allI impI)
  assume "is_int64 post \<and> is_int64 pre"
  then have a: "is_int64 post" and b: "is_int64 pre" by simp_all
  note g = gain_of_int64 [OF a b]
  from g show "is_int64 (sub_int64 post pre)" by blast
  from g show "\<exists>k :: int. sub_int64 post pre = post - pre + of_int k * 2 ^ 64" by blast
  {
    assume "is_int64 (post - pre)"
    with g show "sub_int64 post pre = post - pre" by blast
    assume "post < pre"
    with g \<open>is_int64 (post - pre)\<close> show "sub_int64 post pre < 0" by blast
  }
qed (simp_all add: gain_cell_def gain_row_def scores.defs gains.defs)

theorem gain_is_post_minus_pre_witness:
  "is_int64 20 \<and> is_int64 30 \<and> is_int64 (20 - 30) \<and>
   Post_Training_Basic_Computer_Knowledge_Score (falling_scores ! 0) = 20 \<and>
   Basic_Computer_Knowledge_Score (falling_scores ! 0) = 30 \<and>
   Computer_Gain (gain_cell_int64 falling_scores ! 0) = - 10 \<and>
   Computer_Gain (gain_cell_int64 falling_scores ! 0) < 0"
proof -
  have i: "is_int64 20" "is_int64 30" "is_int64 (20 - 30)"
    by (simp_all add: is_int64_def)
  have len: "0 < length falling_scores"
    and v: "Post_Training_Basic_Computer_Knowledge_Score (falling_scores ! 0) = 20"
      "Basic_Computer_Knowledge_Score (falling_scores ! 0) = 30"
    by (simp_all add: falling_scores_def respondent_def)
  note t = gain_is_post_minus_pre [of sub_int64 sub_int64 sub_int64 falling_scores 20 30]
  from t len v have g: "Computer_Gain (gain_cell_int64 falling_scores ! 0) = sub_int64 20 30"
    unfolding gain_cell_int64_def by metis
  from t i have "sub_int64 20 30 = 20 - 30" and "sub_int64 20 30 < 0"
    by simp_all
  with g i v show ?thesis by simp
qed

section \<open>Labels\<close>

text \<open>
  C10. The function of a row is total and gives 0 or 1, whatever the threshold is (a
  number, NaN or infinite) and whatever the comparison gives; so every label of every row
  is 0 or 1 after the first labelling cell and after the second, whatever the scores are
  and whatever the quantile functions return.
\<close>

theorem labels_are_binary:
  "split_label t x \<in> {0, 1} \<and> quantile_label le thr x \<in> {0, 1} \<and>
   (\<forall>r \<in> set (median_label_cell data).
      Computer_Skill_Label r \<in> {0, 1} \<and> Internet_Usage_Label r \<in> {0, 1} \<and>
      Mobile_Literacy_Label r \<in> {0, 1} \<and> Computer_Gain_Label r \<in> {0, 1} \<and>
      Internet_Gain_Label r \<in> {0, 1} \<and> Mobile_Gain_Label r \<in> {0, 1}) \<and>
   (\<forall>r \<in> set (quantile_label_cell series_quantile np_quantile le data').
      Computer_Skill_Label r \<in> {0, 1} \<and> Internet_Usage_Label r \<in> {0, 1} \<and>
      Mobile_Literacy_Label r \<in> {0, 1} \<and> Computer_Gain_Label r \<in> {0, 1} \<and>
      Internet_Gain_Label r \<in> {0, 1} \<and> Mobile_Gain_Label r \<in> {0, 1})"
  by (auto simp: median_label_cell_def median_label_row_def quantile_label_cell_def
      quantile_label_row_def quantile_label_def split_label_def
      gains.defs labelled.defs scores.defs)

theorem labels_are_binary_witness:
  "map Computer_Skill_Label (median_label_cell (gain_cell_int64 low_scores)) = [0, 0, 0] \<and>
   Computer_Skill_Label (median_label_cell (gain_cell_int64 low_scores) ! 0) \<in> {0, 1} \<and>
   Mobile_Gain_Label (exact_quantile_label_cell (median_label_cell (gain_cell_int64 low_scores)) ! 2)
     \<in> {0, 1}"
proof -
  let ?d = "median_label_cell (gain_cell_int64 low_scores)"
  have m: "?d ! 0 \<in> set ?d"
    by (rule nth_mem)
      (simp add: median_label_cell_def gain_cell_int64_def gain_cell_def low_scores_def)
  have q: "exact_quantile_label_cell ?d ! 2 \<in> set (exact_quantile_label_cell ?d)"
    by (rule nth_mem)
      (simp add: exact_quantile_label_cell_def quantile_label_cell_def median_label_cell_def
        gain_cell_int64_def gain_cell_def low_scores_def)
  have col: "map Computer_Skill_Label ?d = [0, 0, 0]"
    by code_simp
  from labels_are_binary [of 0 0 exact_le None "gain_cell_int64 low_scores"
      exact_quantile exact_quantile ?d] m q col
  show ?thesis unfolding exact_quantile_label_cell_def by blast
qed

text \<open>
  C1 fails on the code. The first labelling cell computes no median; it compares with the
  literals 25, 25 and 26. In a frame whose scores are 10, 20 and 22 the median is 20 and
  the third row lies above it, so a split at the median labels it 1; the cell labels it 0.
\<close>

theorem median_split_ignores_median:
  "median (map Basic_Computer_Knowledge_Score (gain_cell_int64 low_scores)) = Some 20 \<and>
   Basic_Computer_Knowledge_Score (gain_cell_int64 low_scores ! 2) = 22 \<and>
   split_label 20 22 = 1 \<and>
   Computer_Skill_Label (median_label_cell (gain_cell_int64 low_scores) ! 2) = 0"
  by code_simp

text \<open>
  C2 fails on the code. Two respondents gain the same, 10 points, one from 10 to 20 and
  one from 30 to 40. Both labelling cells give them different gain labels, 0 and 1: the
  gain label is computed from the pre-training score (after the first cell it is the
  access label), and the gain enters the second cell through the threshold only.
\<close>

theorem gain_label_ignores_gain:
  "map Computer_Gain (gain_cell_int64 equal_gains) = [10, 10] \<and>
   map Computer_Gain_Label (median_label_cell (gain_cell_int64 equal_gains)) = [0, 1] \<and>
   map Computer_Skill_Label (median_label_cell (gain_cell_int64 equal_gains)) = [0, 1] \<and>
   map Computer_Gain_Label
     (exact_quantile_label_cell (median_label_cell (gain_cell_int64 equal_gains))) = [0, 1]"
  by code_simp





subsection \<open>The share of label 1 after a quantile split\<close>















section \<open>Categorical encoding\<close>

text \<open>
  C6 as the specification states it fails: the education 'phd' has no code, and the cell
  returns a frame with a missing education in that row.
\<close>

theorem encode_unmapped_counterexample:
  "education_codes ''phd'' = None \<and>
   encode_cell unmapped_education =
     [\<lparr>gender = Some 0, age = 30, education = None, employment = Some 2\<rparr>]"
  by (simp add: unmapped_education_def encode_cell_def encode_row_def gender_codes_def
      education_codes_def employment_codes_def)

lemma dom_codes:
  "dom gender_codes = {''M'', ''F''}"
  "dom education_codes =
     {''none'', ''high school'', ''some college'', ''associate'', ''bachelor'', ''master''}"
  "dom employment_codes = {''unemployed'', ''part-time'', ''full-time''}"
  by (auto simp: gender_codes_def education_codes_def employment_codes_def split: if_splits)

lemma ran_codes:
  "gender_codes s = Some c \<Longrightarrow> c \<in> {0, 1}"
  "education_codes s = Some c \<Longrightarrow> c \<in> {0, 1, 2, 3, 4, 5}"
  "employment_codes s = Some c \<Longrightarrow> c \<in> {0, 1, 2}"
  by (auto simp: gender_codes_def education_codes_def employment_codes_def split: if_splits)

text \<open>
  C6, as the code has it. The encoding cell always returns a frame of the same rows. A
  categorical value with an entry in the mapping of its column is replaced by its code
  (0 or 1 for gender, 0 to 5 for education, 0 to 2 for employment); a value with no entry
  becomes a missing value, and no error is raised.
\<close>

theorem encode_unmapped_is_missing:
  "length (encode_cell data) = length data \<and>
   (\<forall>i < length data.
      gender (encode_cell data ! i) = gender_codes (gender (data ! i)) \<and>
      education (encode_cell data ! i) = education_codes (education (data ! i)) \<and>
      employment (encode_cell data ! i) = employment_codes (employment (data ! i)) \<and>
      age (encode_cell data ! i) = age (data ! i) \<and>
      (gender (data ! i) \<notin> dom gender_codes \<longleftrightarrow> gender (encode_cell data ! i) = None) \<and>
      (education (data ! i) \<notin> dom education_codes \<longleftrightarrow> education (encode_cell data ! i) = None) \<and>
      (employment (data ! i) \<notin> dom employment_codes \<longleftrightarrow> employment (encode_cell data ! i) = None) \<and>
      (\<forall>c. gender (encode_cell data ! i) = Some c \<longrightarrow> c \<in> {0, 1}) \<and>
      (\<forall>c. education (encode_cell data ! i) = Some c \<longrightarrow> c \<in> {0, 1, 2, 3, 4, 5}) \<and>
      (\<forall>c. employment (encode_cell data ! i) = Some c \<longrightarrow> c \<in> {0, 1, 2}))"
  using ran_codes by (auto simp: encode_cell_def encode_row_def)

theorem encode_unmapped_is_missing_witness:
  "education (unmapped_education ! 0) = ''phd'' \<and> ''phd'' \<notin> dom education_codes \<and>
   education (encode_cell unmapped_education ! 0) = None \<and>
   gender (encode_cell unmapped_education ! 0) = Some 0"
proof -
  have len: "0 < length unmapped_education"
    by (simp add: unmapped_education_def)
  have v: "education (unmapped_education ! 0) = ''phd''" "gender (unmapped_education ! 0) = ''M''"
    by (simp_all add: unmapped_education_def)
  have d: "''phd'' \<notin> dom education_codes"
    by (simp add: dom_codes)
  have g: "gender_codes ''M'' = Some 0"
    by (simp add: gender_codes_def)
  note t = encode_unmapped_is_missing [of unmapped_education,
      THEN conjunct2, THEN spec, THEN mp, OF len]
  from t v d have "education (encode_cell unmapped_education ! 0) = None"
    by metis
  moreover from t v g have "gender (encode_cell unmapped_education ! 0) = Some 0"
    by metis
  ultimately show ?thesis using v d by blast
qed

section \<open>Group aggregation and reporting\<close>

lemma sort_remdups_two:
  fixes lo hi :: "'v::linorder"
  assumes "set xs = {lo, hi}" "lo < hi"
  shows "sort (remdups xs) = [lo, hi]"
proof (rule sorted_distinct_set_unique)
  show "sorted (sort (remdups xs))" by simp
  show "distinct (sort (remdups xs))" by simp
  show "sorted [lo, hi]" using assms by simp
  show "distinct [lo, hi]" using assms by simp
  show "set (sort (remdups xs)) = set [lo, hi]" using assms by simp
qed

lemma length_sort_remdups: "length (sort (remdups xs)) = card (set xs)"
  by (simp add: length_remdups_card_conv)

lemma filled_value_counts:
  "filled (case value_counts ps (g, l) of None \<Rightarrow> Some 0 | Some x \<Rightarrow> Some x) = proportion ps g l"
proof (cases "(g, l) \<in> set ps")
  case True
  then show ?thesis by (simp add: value_counts_def filled_def proportion_def)
next
  case False
  then have "filter (\<lambda>p. p = (g, l)) ps = []"
    by (auto simp: filter_empty_conv)
  with False show ?thesis by (simp add: value_counts_def filled_def proportion_def)
qed

lemma zip_map_same: "zip xs (map f xs) = map (\<lambda>x. (x, f x)) xs"
  by (induction xs) auto

lemma rename_unstack:
  "rename_columns (fillna 0 (unstack ps)) =
     (if card (snd ` set ps) = 2
      then Inr (map (\<lambda>g. (g, proportion ps g (sort (remdups (map snd ps)) ! 0),
                           proportion ps g (sort (remdups (map snd ps)) ! 1)))
                 (sort (remdups (map fst ps))))
      else Inl (LengthMismatch (card (snd ` set ps))))"
proof -
  have len: "length (sort (remdups (map snd ps))) = card (snd ` set ps)"
    using length_sort_remdups [of "map snd ps"] by simp
  show ?thesis
  proof (cases "card (snd ` set ps) = 2")
    case False
    with len show ?thesis
      by (simp add: rename_columns_def fillna_def unstack_def Let_def)
  next
    case True
    with len have l2: "length (sort (remdups (map snd ps))) = 2" by simp
    then show ?thesis using True
      by (simp add: rename_columns_def fillna_def unstack_def Let_def zip_map_same
          filled_value_counts o_def)
  qed
qed

lemma count_split:
  assumes "\<forall>p \<in> set ps. snd p = lo \<or> snd p = hi" "lo \<noteq> hi"
  shows "length (filter (\<lambda>p. p = (g, lo)) ps) + length (filter (\<lambda>p. p = (g, hi)) ps)
       = length (filter (\<lambda>p. fst p = g) ps)"
  using assms by (induction ps) auto

lemma proportion_sum:
  assumes "set (map snd ps) = {lo, hi}" "lo \<noteq> hi" "g \<in> fst ` set ps"
  shows "proportion ps g lo + proportion ps g hi = 1"
proof -
  have all: "\<forall>p \<in> set ps. snd p = lo \<or> snd p = hi"
    using assms(1) by auto
  from assms(3) have "filter (\<lambda>p. fst p = g) ps \<noteq> []"
    by (auto simp: filter_empty_conv)
  then have pos: "length (filter (\<lambda>p. fst p = g) ps) \<noteq> 0" by simp
  have "proportion ps g lo + proportion ps g hi =
      of_nat (length (filter (\<lambda>p. p = (g, lo)) ps) + length (filter (\<lambda>p. p = (g, hi)) ps)) /
      of_nat (length (filter (\<lambda>p. fst p = g) ps))"
    by (simp add: proportion_def add_divide_distrib)
  also have "\<dots> = 1"
    using count_split [OF all assms(2), of g] pos by simp
  finally show ?thesis .
qed

lemma proportion_bounds: "0 \<le> proportion ps g l \<and> proportion ps g l \<le> 1"
proof -
  have "length (filter (\<lambda>p. p = (g, l)) ps) \<le> length (filter (\<lambda>p. fst p = g) ps)"
    by (induction ps) auto
  then show ?thesis
    by (simp add: proportion_def divide_le_eq_1)
qed

lemma proportion_absent: "(g, l) \<notin> set ps \<Longrightarrow> proportion ps g l = 0"
proof -
  assume "(g, l) \<notin> set ps"
  then have "filter (\<lambda>p. p = (g, l)) ps = []"
    by (auto simp: filter_empty_conv)
  then show ?thesis by (simp add: proportion_def)
qed


lemma grouped_table_groupby:
  "groupby df c l = Inr ps \<Longrightarrow> c \<noteq> l \<Longrightarrow>
   grouped_table df c l =
     (if card (snd ` set ps) = 2
      then Inr (map (\<lambda>g. (g, proportion ps g (sort (remdups (map snd ps)) ! 0),
                           proportion ps g (sort (remdups (map snd ps)) ! 1)))
                 (sort (remdups (map fst ps))))
      else Inl (LengthMismatch (card (snd ` set ps))))"
  by (simp add: grouped_table_def rename_unstack)

lemma grouped_table_Inr:
  assumes "grouped_table df c l = Inr tbl"
  shows "c \<noteq> l \<and> (\<exists>ps. groupby df c l = Inr ps \<and> card (snd ` set ps) = 2)"
proof (cases "groupby df c l")
  case (Inl e)
  with assms show ?thesis by (simp add: grouped_table_def)
next
  case (Inr ps)
  with assms have ne: "c \<noteq> l"
    by (auto simp: grouped_table_def split: if_splits)
  with assms Inr show ?thesis
    by (auto simp: grouped_table_groupby split: if_splits)
qed

lemma bar_graph_loop_Inr:
  "bar_graph_loop srt fmt df l n cols acc = Inr r \<Longrightarrow>
   \<forall>c \<in> set cols. c \<noteq> l \<and> (\<exists>ps. groupby df c l = Inr ps \<and> card (snd ` set ps) = 2)"
proof (induction cols arbitrary: acc)
  case Nil
  then show ?case by simp
next
  case (Cons c cols)
  obtain ws props where acc: "acc = (ws, props)" by (cases acc)
  from Cons.prems acc obtain tbl where tbl: "grouped_table df c l = Inr tbl"
    by (auto split: sum.splits)
  with Cons.prems acc have "\<exists>acc'. bar_graph_loop srt fmt df l n cols acc' = Inr r"
    by auto
  with Cons.IH have
    "\<forall>c \<in> set cols. c \<noteq> l \<and> (\<exists>ps. groupby df c l = Inr ps \<and> card (snd ` set ps) = 2)"
    by blast
  with grouped_table_Inr [OF tbl] show ?case by simp
qed

lemma bar_graph_loop_mismatch:
  assumes "\<forall>c \<in> set cols. c \<noteq> l \<and> (\<exists>ps. groupby df c l = Inr ps)"
    and "\<exists>c \<in> set cols. \<exists>ps. groupby df c l = Inr ps \<and> card (snd ` set ps) \<noteq> 2"
  shows "\<exists>k. k \<noteq> 2 \<and> bar_graph_loop srt fmt df l n cols acc = Inl (LengthMismatch k)"
  using assms
proof (induction cols arbitrary: acc)
  case Nil
  then show ?case by simp
next
  case (Cons c cols)
  obtain ws props where acc: "acc = (ws, props)" by (cases acc)
  from Cons.prems(1) obtain ps where ps: "groupby df c l = Inr ps" and ne: "c \<noteq> l" by auto
  show ?case
  proof (cases "card (snd ` set ps) = 2")
    case False
    with ps ne acc show ?thesis by (auto simp: grouped_table_groupby)
  next
    case True
    with ps Cons.prems(2) have
      "\<exists>c \<in> set cols. \<exists>ps. groupby df c l = Inr ps \<and> card (snd ` set ps) \<noteq> 2"
      by auto
    moreover from Cons.prems(1) have "\<forall>c \<in> set cols. c \<noteq> l \<and> (\<exists>ps. groupby df c l = Inr ps)"
      by simp
    ultimately have
      "\<exists>k. k \<noteq> 2 \<and> bar_graph_loop srt fmt df l n cols acc' = Inl (LengthMismatch k)" for acc'
      using Cons.IH by blast
    with ps ne True acc show ?thesis by (simp add: grouped_table_groupby)
  qed
qed

text \<open>
  C9 as the specification states it fails: when a single-class label column is grouped by
  itself, both functions fail in \<^verbatim>\<open>unstack\<close>, before the renaming, and the error is not
  a length mismatch.
\<close>

theorem same_column_counterexample:
  "single_class_frame ''label'' = Some [Some 0, Some 0, Some 0] \<and>
   averages_calculate single_class_frame ''label'' ''label'' = Inl NotMultiIndex \<and>
   bar_graph sort_values_keeping_ties str_nat single_class_frame [''label''] ''label'' 2 =
     Inl NotMultiIndex"
  by code_simp

text \<open>
  C9, as the code has it. \<^verbatim>\<open>averages_calculate\<close> returns a table only if the group
  column is not the label column and the labels of the grouped rows take exactly two
  distinct values, and so does \<^verbatim>\<open>bar_graph\<close> for every group column it is given. When
  the columns exist, no group column is the label column and the labels take another
  number \<open>k\<close> of distinct values (one, for a single-class label column), the renaming of
  the two columns fails with the length mismatch of \<open>k\<close> instead.
\<close>

theorem two_label_values_needed:
  "(averages_calculate df group_col label_col = Inr tbl \<longrightarrow>
      group_col \<noteq> label_col \<and>
      (\<exists>ps. groupby df group_col label_col = Inr ps \<and> card (snd ` set ps) = 2)) \<and>
   (groupby df group_col label_col = Inr ps \<and> group_col \<noteq> label_col \<and>
    card (snd ` set ps) \<noteq> 2 \<longrightarrow>
      averages_calculate df group_col label_col = Inl (LengthMismatch (card (snd ` set ps)))) \<and>
   (bar_graph sort_values fmt df group_cols label_col n = Inr r \<longrightarrow>
      (\<forall>c \<in> set group_cols.
         c \<noteq> label_col \<and> (\<exists>ps. groupby df c label_col = Inr ps \<and> card (snd ` set ps) = 2))) \<and>
   ((\<forall>c \<in> set group_cols. c \<noteq> label_col \<and> (\<exists>ps. groupby df c label_col = Inr ps)) \<and>
    (\<exists>c \<in> set group_cols. \<exists>ps. groupby df c label_col = Inr ps \<and> card (snd ` set ps) \<noteq> 2) \<longrightarrow>
      (\<exists>k. k \<noteq> 2 \<and>
         bar_graph sort_values fmt df group_cols label_col n = Inl (LengthMismatch k)))"
proof (intro conjI impI)
  assume a: "averages_calculate df group_col label_col = Inr tbl"
  then have g: "grouped_table df group_col label_col = Inr tbl"
    by (simp add: averages_calculate_def)
  from grouped_table_Inr [OF g] show "group_col \<noteq> label_col" by blast
  from grouped_table_Inr [OF g]
  show "\<exists>ps. groupby df group_col label_col = Inr ps \<and> card (snd ` set ps) = 2" by blast
next
  assume "groupby df group_col label_col = Inr ps \<and> group_col \<noteq> label_col \<and>
    card (snd ` set ps) \<noteq> 2"
  then show "averages_calculate df group_col label_col = Inl (LengthMismatch (card (snd ` set ps)))"
    by (simp add: averages_calculate_def grouped_table_groupby)
next
  assume "bar_graph sort_values fmt df group_cols label_col n = Inr r"
  then show "\<forall>c \<in> set group_cols.
      c \<noteq> label_col \<and> (\<exists>ps. groupby df c label_col = Inr ps \<and> card (snd ` set ps) = 2)"
    unfolding bar_graph_def by (rule bar_graph_loop_Inr)
next
  assume "(\<forall>c \<in> set group_cols. c \<noteq> label_col \<and> (\<exists>ps. groupby df c label_col = Inr ps)) \<and>
    (\<exists>c \<in> set group_cols. \<exists>ps. groupby df c label_col = Inr ps \<and> card (snd ` set ps) \<noteq> 2)"
  then have 1: "\<forall>c \<in> set group_cols. c \<noteq> label_col \<and> (\<exists>ps. groupby df c label_col = Inr ps)"
    and 2: "\<exists>c \<in> set group_cols. \<exists>ps. groupby df c label_col = Inr ps \<and> card (snd ` set ps) \<noteq> 2"
    by simp_all
  show "\<exists>k. k \<noteq> 2 \<and>
      bar_graph sort_values fmt df group_cols label_col n = Inl (LengthMismatch k)"
    unfolding bar_graph_def by (rule bar_graph_loop_mismatch [OF 1 2])
qed

lemma single_class_pairs:
  "groupby single_class_frame ''gender'' ''label'' = Inr [(0, 0), (1, 0), (1, 0)]"
  by code_simp

theorem two_label_values_needed_witness:
  "groupby single_class_frame ''gender'' ''label'' = Inr [(0, 0), (1, 0), (1, 0)] \<and>
   averages_calculate single_class_frame ''gender'' ''label'' = Inl (LengthMismatch 1) \<and>
   (\<exists>k. k \<noteq> 2 \<and>
      bar_graph sort_values_keeping_ties str_nat single_class_frame [''gender''] ''label'' 2 =
        Inl (LengthMismatch k))"
proof -
  let ?ps = "[(0, 0), (1, 0), (1, 0)] :: (nat \<times> nat) list"
  have c: "card (snd ` set ?ps) = 1" by simp
  have ne: "''gender'' \<noteq> ''label''" by simp
  note t = two_label_values_needed [of single_class_frame "''gender''" "''label''" "[]" ?ps
      sort_values_keeping_ties str_nat "[''gender'']" 2 "([], [])"]
  from t single_class_pairs c ne
  have a: "averages_calculate single_class_frame ''gender'' ''label'' = Inl (LengthMismatch 1)"
    by simp
  have "\<forall>c \<in> set [''gender'']. c \<noteq> ''label'' \<and>
      (\<exists>ps. groupby single_class_frame c ''label'' = Inr ps)"
    using single_class_pairs by simp
  moreover have "\<exists>c \<in> set [''gender'']. \<exists>ps.
      groupby single_class_frame c ''label'' = Inr ps \<and> card (snd ` set ps) \<noteq> 2"
    using single_class_pairs c by simp
  ultimately have "\<exists>k. k \<noteq> 2 \<and>
      bar_graph sort_values_keeping_ties str_nat single_class_frame [''gender''] ''label'' 2 =
        Inl (LengthMismatch k)"
    using t by blast
  with a single_class_pairs show ?thesis by blast
qed

text \<open>
  C7 as the specification states it fails: a label column that is binary but holds the
  label 0 only gives a length mismatch, no table; and grouping a binary column by itself
  gives the error of \<^verbatim>\<open>unstack\<close>, no table.
\<close>

theorem single_class_counterexample:
  "single_class_frame ''label'' = Some [Some 0, Some 0, Some 0] \<and>
   averages_calculate single_class_frame ''gender'' ''label'' = Inl (LengthMismatch 1) \<and>
   mixed_frame ''label'' = Some [Some 0, Some 1, Some 0, Some 1] \<and>
   averages_calculate mixed_frame ''label'' ''label'' = Inl NotMultiIndex"
  by code_simp

text \<open>
  C7, as the code has it. When the two columns exist, the group column is not the label
  column and the labels of the grouped rows take exactly two values \<open>lo < hi\<close> (0 and 1
  for a binary label column in which both occur), \<^verbatim>\<open>averages_calculate\<close> gives one row
  for every group value, in ascending order; its pair is the share of \<open>lo\<close>
  ('Below Average') and the share of \<open>hi\<close> ('Above Average') among the rows of the
  group. The two sum to 1, hence within \<open>10\<^sup>-\<^sup>9\<close>, and a class without rows in the group
  has the share 0.
\<close>

theorem group_distribution:
  assumes "groupby df group_col label_col = Inr ps" and "group_col \<noteq> label_col"
    and "snd ` set ps = {lo, hi}" and "lo < hi"
  shows "\<exists>tbl. averages_calculate df group_col label_col = Inr tbl \<and>
     map fst tbl = sort (remdups (map fst ps)) \<and>
     distinct (map fst tbl) \<and> set (map fst tbl) = fst ` set ps \<and>
     (\<forall>(g, below, above) \<in> set tbl.
        below = proportion ps g lo \<and> above = proportion ps g hi \<and>
        below + above = 1 \<and> \<bar>below + above - 1\<bar> \<le> 1 / 10 ^ 9 \<and>
        0 \<le> below \<and> 0 \<le> above \<and>
        ((g, lo) \<notin> set ps \<longrightarrow> below = 0) \<and> ((g, hi) \<notin> set ps \<longrightarrow> above = 0))"
proof -
  let ?keys = "sort (remdups (map fst ps))"
  let ?tbl = "map (\<lambda>g. (g, proportion ps g lo, proportion ps g hi)) ?keys"
  from assms(3,4) have card2: "card (snd ` set ps) = 2" by simp
  from assms(3,4) have labels: "sort (remdups (map snd ps)) = [lo, hi]"
    by (intro sort_remdups_two) simp_all
  have res: "averages_calculate df group_col label_col = Inr ?tbl"
    using assms(1,2) card2 labels
    by (simp add: averages_calculate_def grouped_table_groupby)
  have keys: "map fst ?tbl = ?keys"
    by (simp add: o_def)
  have rows: "below = proportion ps g lo \<and> above = proportion ps g hi \<and>
        below + above = 1 \<and> \<bar>below + above - 1\<bar> \<le> 1 / 10 ^ 9 \<and>
        0 \<le> below \<and> 0 \<le> above \<and>
        ((g, lo) \<notin> set ps \<longrightarrow> below = 0) \<and> ((g, hi) \<notin> set ps \<longrightarrow> above = 0)"
    if "(g, below, above) \<in> set ?tbl" for g below above
  proof -
    from that have g: "g \<in> fst ` set ps" and b: "below = proportion ps g lo"
      and a: "above = proportion ps g hi"
      by auto
    from assms(3,4) g have "proportion ps g lo + proportion ps g hi = 1"
      by (intro proportion_sum) auto
    with a b show ?thesis
      using proportion_bounds [of ps g lo] proportion_bounds [of ps g hi]
      by (simp add: proportion_absent)
  qed
  show ?thesis
  proof (intro exI conjI)
    show "averages_calculate df group_col label_col = Inr ?tbl" by (rule res)
    show "map fst ?tbl = ?keys" by (rule keys)
    show "distinct (map fst ?tbl)" unfolding keys by simp
    show "set (map fst ?tbl) = fst ` set ps" unfolding keys by simp
    show "\<forall>(g, below, above) \<in> set ?tbl.
        below = proportion ps g lo \<and> above = proportion ps g hi \<and>
        below + above = 1 \<and> \<bar>below + above - 1\<bar> \<le> 1 / 10 ^ 9 \<and>
        0 \<le> below \<and> 0 \<le> above \<and>
        ((g, lo) \<notin> set ps \<longrightarrow> below = 0) \<and> ((g, hi) \<notin> set ps \<longrightarrow> above = 0)"
      using rows by blast
  qed
qed

lemma mixed_pairs:
  "groupby mixed_frame ''gender'' ''label'' = Inr [(1, 0), (0, 1), (1, 0), (1, 1)]"
  by code_simp

lemma mixed_table:
  "averages_calculate mixed_frame ''gender'' ''label'' = Inr [(0, 0, 1), (1, 2 / 3, 1 / 3)]"
  by code_simp

theorem group_distribution_witness:
  "groupby mixed_frame ''gender'' ''label'' = Inr [(1, 0), (0, 1), (1, 0), (1, 1)] \<and>
   averages_calculate mixed_frame ''gender'' ''label'' = Inr [(0, 0, 1), (1, 2 / 3, 1 / 3)] \<and>
   proportion [(1, 0), (0, 1), (1, 0), (1, 1 :: nat)] 0 0 = 0 \<and>
   proportion [(1, 0), (0, 1), (1, 0), (1, 1 :: nat)] 1 0 +
     proportion [(1, 0), (0, 1), (1, 0), (1, 1 :: nat)] 1 1 = 1"
proof -
  let ?ps = "[(1, 0), (0, 1), (1, 0), (1, 1)] :: (nat \<times> nat) list"
  have labels: "snd ` set ?ps = {0, 1}" by auto
  have ne: "''gender'' \<noteq> ''label''" by simp
  from group_distribution [OF mixed_pairs ne labels] obtain tbl where
    res: "averages_calculate mixed_frame ''gender'' ''label'' = Inr tbl"
    and rows: "\<forall>(g, below, above) \<in> set tbl.
        below = proportion ?ps g 0 \<and> above = proportion ?ps g 1 \<and>
        below + above = 1 \<and> \<bar>below + above - 1\<bar> \<le> 1 / 10 ^ 9 \<and>
        0 \<le> below \<and> 0 \<le> above \<and>
        ((g, 0) \<notin> set ?ps \<longrightarrow> below = 0) \<and> ((g, 1) \<notin> set ?ps \<longrightarrow> above = 0)"
    by auto
  from res mixed_table have tbl: "tbl = [(0, 0, 1), (1, 2 / 3, 1 / 3)]" by simp
  from rows have "proportion ?ps 0 0 = 0"
    unfolding tbl by simp
  moreover from rows have "proportion ?ps 1 0 + proportion ?ps 1 1 = 1"
    unfolding tbl by simp
  ultimately show ?thesis using mixed_pairs mixed_table by simp
qed

subsection \<open>The worst groups\<close>

lemma sorted_desc_rev_sort_key:
  "sorted_wrt (\<lambda>x y. snd y \<le> snd x) (rev (sort_key snd (s :: ('v \<times> rat) list)))"
proof -
  have "sorted (map snd (sort_key snd s))" by (rule sorted_sort_key)
  then have "sorted_wrt (\<lambda>x y. snd x \<le> snd y) (sort_key snd s)"
    by (simp add: sorted_wrt_map)
  then show ?thesis by (simp add: sorted_wrt_rev)
qed

lemma sorts_descending_keeping_ties: "sorts_descending sort_values_keeping_ties"
  unfolding sorts_descending_def sort_values_keeping_ties_def
  by (simp add: sorted_desc_rev_sort_key)

lemma sorts_descending_reversing_ties: "sorts_descending sort_values_reversing_ties"
  unfolding sorts_descending_def sort_values_reversing_ties_def
  by (simp add: sorted_desc_rev_sort_key)

lemma top_worst_ranked:
  assumes "sorts_descending srt" and "0 \<le> n"
  shows "\<exists>ranked. mset ranked = mset (map (\<lambda>(g, below, above). (g, below)) tbl) \<and>
     sorted_wrt (\<lambda>x y. snd y \<le> snd x) ranked \<and> top_worst srt tbl n = take (nat n) ranked"
proof -
  let ?s = "map (\<lambda>(g, below, above). (g, below)) tbl"
  from assms(1) have "mset (srt ?s) = mset ?s" and "sorted_wrt (\<lambda>x y. snd y \<le> snd x) (srt ?s)"
    by (simp_all add: sorts_descending_def)
  moreover have "top_worst srt tbl n = take (nat n) (srt ?s)"
    using assms(2) by (simp add: top_worst_def head_def)
  ultimately show ?thesis by blast
qed

lemma bar_graph_loop_tops:
  "bar_graph_loop srt fmt df l n cols (ws, props) = Inr (ws', props') \<Longrightarrow>
   \<exists>tops. list_all2 (\<lambda>c top. \<exists>tbl. grouped_table df c l = Inr tbl \<and> top = top_worst srt tbl n)
       cols tops \<and>
     ws' = ws @ concat (map2 (\<lambda>c top. map (\<lambda>(g, b). c @ '': '' @ fmt g) top) cols tops) \<and>
     props' = props @ concat (map (map snd) tops)"
proof (induction cols arbitrary: ws props)
  case Nil
  then show ?case by simp
next
  case (Cons c cols)
  from Cons.prems obtain tbl where tbl: "grouped_table df c l = Inr tbl"
    by (auto split: sum.splits)
  let ?top = "top_worst srt tbl n"
  from Cons.prems tbl have
    "bar_graph_loop srt fmt df l n cols
       (ws @ map (\<lambda>(idx, val). c @ '': '' @ fmt idx) ?top, props @ map (\<lambda>(idx, val). val) ?top)
     = Inr (ws', props')"
    by simp
  from Cons.IH [OF this] obtain tops where
    t: "list_all2 (\<lambda>c top. \<exists>tbl. grouped_table df c l = Inr tbl \<and> top = top_worst srt tbl n)
          cols tops"
    and w: "ws' = (ws @ map (\<lambda>(idx, val). c @ '': '' @ fmt idx) ?top) @
       concat (map2 (\<lambda>c top. map (\<lambda>(g, b). c @ '': '' @ fmt g) top) cols tops)"
    and p: "props' = (props @ map (\<lambda>(idx, val). val) ?top) @ concat (map (map snd) tops)"
    by blast
  have "map (\<lambda>(idx, val). val) ?top = map snd ?top" by (simp add: split_def)
  with t w p tbl show ?case
    by (intro exI [of _ "?top # tops"]) simp
qed

lemma bar_graph_loop_total:
  "\<forall>c \<in> set cols. \<exists>tbl. grouped_table df c l = Inr tbl \<Longrightarrow>
   \<exists>r. bar_graph_loop srt fmt df l n cols acc = Inr r"
proof (induction cols arbitrary: acc)
  case Nil
  then show ?case by simp
next
  case (Cons c cols)
  obtain ws props where acc: "acc = (ws, props)" by (cases acc)
  from Cons.prems obtain tbl where "grouped_table df c l = Inr tbl" by auto
  with Cons acc show ?case by simp
qed

text \<open>The table of a group column depends on the rows, not on their order.\<close>

lemma length_filter_mset:
  "mset xs = mset ys \<Longrightarrow> length (filter P xs) = length (filter P ys)"
proof -
  assume "mset xs = mset ys"
  then have "mset (filter P xs) = mset (filter P ys)" by simp
  then show ?thesis by (rule mset_eq_length)
qed

lemma sort_remdups_set:
  fixes xs ys :: "('v::linorder) list"
  assumes "set xs = set ys"
  shows "sort (remdups xs) = sort (remdups ys)"
  by (rule sorted_distinct_set_unique) (simp_all add: assms)

lemma unstack_mset:
  assumes "mset ps = mset ps'"
  shows "unstack ps = unstack ps'"
proof -
  from assms have s: "set ps = set ps'" by (rule mset_eq_setD)
  have "value_counts ps = value_counts ps'"
    unfolding value_counts_def
    by (simp add: s length_filter_mset [OF assms] fun_eq_iff)
  moreover from s have "sort (remdups (map fst ps)) = sort (remdups (map fst ps'))"
    by (intro sort_remdups_set) simp
  moreover from s have "sort (remdups (map snd ps)) = sort (remdups (map snd ps'))"
    by (intro sort_remdups_set) simp
  ultimately show ?thesis by (simp add: unstack_def)
qed

lemma grouped_table_mset:
  assumes "groupby df c l = Inr ps" "groupby df' c l = Inr ps'" "mset ps = mset ps'"
  shows "grouped_table df c l = grouped_table df' c l"
  using assms(1,2) unstack_mset [OF assms(3)] by (simp add: grouped_table_def)

lemma bar_graph_loop_cong:
  "\<forall>c \<in> set cols. grouped_table df c l = grouped_table df' c l \<Longrightarrow>
   bar_graph_loop srt fmt df l n cols acc = bar_graph_loop srt fmt df' l n cols acc"
proof (induction cols arbitrary: acc)
  case Nil
  then show ?case by simp
next
  case (Cons c cols)
  obtain ws props where acc: "acc = (ws, props)" by (cases acc)
  from Cons.prems have "grouped_table df c l = grouped_table df' c l" by simp
  moreover from Cons have
    "bar_graph_loop srt fmt df l n cols acc' = bar_graph_loop srt fmt df' l n cols acc'" for acc'
    by simp
  ultimately show ?case unfolding acc by (simp split: sum.split)
qed

text \<open>Three groups with the shares 0.8, 0.3 and 0.9: every sort gives the same ranking.\<close>

lemma list_of_three: "length xs = 3 \<Longrightarrow> \<exists>x y z. xs = [x, y, z]"
  by (auto simp: length_Suc_conv numeral_3_eq_3)

lemma scenario_ranking:
  assumes "sorts_descending srt"
  shows "srt [(g1, 8 / 10), (g2, 3 / 10), (g3, 9 / 10)] = [(g3, 9 / 10), (g1, 8 / 10), (g2, 3 / 10)]"
proof -
  define s where "s = [(g1, 8 / 10), (g2, 3 / 10), (g3, 9 / 10 :: rat)]"
  define r where "r = srt s"
  from assms have m: "mset r = mset s" and d: "sorted_wrt (\<lambda>x y. snd y \<le> snd x) r"
    by (simp_all add: sorts_descending_def r_def)
  from d have "sorted_wrt (\<lambda>x y. y \<le> x) (map snd r)" by (simp add: sorted_wrt_map)
  then have srt: "sorted (rev (map snd r))" by (simp add: sorted_wrt_rev)
  have "mset (map snd r) = mset (map snd s)" by (simp only: mset_map m)
  then have "mset (rev (map snd r)) = mset (map snd s)" by simp
  from properties_for_sort [OF this srt] have "rev (map snd r) = sort (map snd s)" by simp
  also have "sort (map snd s) = [3 / 10, 8 / 10, 9 / 10]" by (simp add: s_def)
  finally have "rev (rev (map snd r)) = rev [3 / 10, 8 / 10, 9 / 10 :: rat]" by (rule arg_cong)
  then have v: "map snd r = [9 / 10, 8 / 10, 3 / 10]" by simp
  then have "length (map snd r) = 3" by simp
  then have "length r = 3" by simp
  from list_of_three [OF this] obtain x y z where xyz: "r = [x, y, z]" by blast
  from v have x: "snd x = 9 / 10" and y: "snd y = 8 / 10" and z: "snd z = 3 / 10"
    unfolding xyz by simp_all
  from m have "set r = set s" by (rule mset_eq_setD)
  then have mem: "x \<in> set s" "y \<in> set s" "z \<in> set s" unfolding xyz by auto
  from mem(1) x have "x = (g3, 9 / 10)" unfolding s_def by auto
  moreover from mem(2) y have "y = (g1, 8 / 10)" unfolding s_def by auto
  moreover from mem(3) z have "z = (g2, 3 / 10)" unfolding s_def by auto
  ultimately show ?thesis using xyz unfolding r_def s_def by simp
qed

text \<open>
  C8, as the code has it, for a sort that does what every sort does (it returns the entries
  of the series, by descending value). When \<^verbatim>\<open>bar_graph\<close> returns and \<open>n \<ge> 0\<close>, its two
  lists are the concatenation, over the group columns in the order given, of one segment
  for each column: the first \<open>n\<close> entries of a ranking of the column's groups by descending
  share below average, every entry tagged with the name of the column. The order of two
  groups with the same share is not fixed, and it cannot follow the order in which the
  groups are first seen: two frames with the same rows in another order give the same
  result. The function returns whenever no group column is the label column and every
  group column yields two label values. With the shares 0.8, 0.3 and 0.9 and \<open>n = 2\<close>
  the result is the groups with 0.9 and 0.8, in that order.
\<close>

theorem top_n_worst_groups:
  assumes "sorts_descending sort_values"
  shows
  "(bar_graph sort_values fmt df group_cols label_col n = Inr (worst_groups, proportions) \<and> 0 \<le> n \<longrightarrow>
      (\<exists>tops.
         list_all2 (\<lambda>c top. \<exists>tbl ranked. grouped_table df c label_col = Inr tbl \<and>
             mset ranked = mset (map (\<lambda>(g, below, above). (g, below)) tbl) \<and>
             sorted_wrt (\<lambda>x y. snd y \<le> snd x) ranked \<and> top = take (nat n) ranked) group_cols tops \<and>
         worst_groups =
           concat (map2 (\<lambda>c top. map (\<lambda>(g, b). c @ '': '' @ fmt g) top) group_cols tops) \<and>
         proportions = concat (map (map snd) tops))) \<and>
   ((\<forall>c \<in> set group_cols. c \<noteq> label_col \<and>
        (\<exists>ps. groupby df c label_col = Inr ps \<and> card (snd ` set ps) = 2)) \<longrightarrow>
      (\<exists>r. bar_graph sort_values fmt df group_cols label_col n = Inr r)) \<and>
   ((\<forall>c \<in> set group_cols. \<exists>ps ps'. groupby df c label_col = Inr ps \<and>
        groupby df' c label_col = Inr ps' \<and> mset ps = mset ps') \<longrightarrow>
      bar_graph sort_values fmt df group_cols label_col n =
        bar_graph sort_values fmt df' group_cols label_col n) \<and>
   (grouped_table df grp label_col = Inr [(g1, 8 / 10, 2 / 10), (g2, 3 / 10, 7 / 10), (g3, 9 / 10, 1 / 10)] \<longrightarrow>
      bar_graph sort_values fmt df [grp] label_col 2 =
        Inr ([grp @ '': '' @ fmt g3, grp @ '': '' @ fmt g1], [9 / 10, 8 / 10]))"
proof (intro conjI impI)
  assume a: "bar_graph sort_values fmt df group_cols label_col n = Inr (worst_groups, proportions) \<and>
    0 \<le> n"
  then have "bar_graph_loop sort_values fmt df label_col n group_cols ([], []) =
      Inr (worst_groups, proportions)"
    by (simp add: bar_graph_def)
  from bar_graph_loop_tops [OF this] obtain tops where
    t: "list_all2 (\<lambda>c top. \<exists>tbl. grouped_table df c label_col = Inr tbl \<and>
          top = top_worst sort_values tbl n) group_cols tops"
    and w: "worst_groups =
       concat (map2 (\<lambda>c top. map (\<lambda>(g, b). c @ '': '' @ fmt g) top) group_cols tops)"
    and p: "proportions = concat (map (map snd) tops)"
    by auto
  from t have "list_all2 (\<lambda>c top. \<exists>tbl ranked. grouped_table df c label_col = Inr tbl \<and>
             mset ranked = mset (map (\<lambda>(g, below, above). (g, below)) tbl) \<and>
             sorted_wrt (\<lambda>x y. snd y \<le> snd x) ranked \<and> top = take (nat n) ranked) group_cols tops"
  proof (rule list_all2_mono)
    fix c top
    assume "\<exists>tbl. grouped_table df c label_col = Inr tbl \<and> top = top_worst sort_values tbl n"
    then obtain tbl where tbl: "grouped_table df c label_col = Inr tbl"
      "top = top_worst sort_values tbl n"
      by blast
    from a have "0 \<le> n" by simp
    from top_worst_ranked [OF assms this, of tbl] tbl
    show "\<exists>tbl ranked. grouped_table df c label_col = Inr tbl \<and>
             mset ranked = mset (map (\<lambda>(g, below, above). (g, below)) tbl) \<and>
             sorted_wrt (\<lambda>x y. snd y \<le> snd x) ranked \<and> top = take (nat n) ranked"
      by auto
  qed
  with w p show "\<exists>tops.
         list_all2 (\<lambda>c top. \<exists>tbl ranked. grouped_table df c label_col = Inr tbl \<and>
             mset ranked = mset (map (\<lambda>(g, below, above). (g, below)) tbl) \<and>
             sorted_wrt (\<lambda>x y. snd y \<le> snd x) ranked \<and> top = take (nat n) ranked) group_cols tops \<and>
         worst_groups =
           concat (map2 (\<lambda>c top. map (\<lambda>(g, b). c @ '': '' @ fmt g) top) group_cols tops) \<and>
         proportions = concat (map (map snd) tops)"
    by blast
next
  assume "\<forall>c \<in> set group_cols. c \<noteq> label_col \<and>
    (\<exists>ps. groupby df c label_col = Inr ps \<and> card (snd ` set ps) = 2)"
  then have "\<forall>c \<in> set group_cols. \<exists>tbl. grouped_table df c label_col = Inr tbl"
    by (auto simp: grouped_table_groupby)
  then show "\<exists>r. bar_graph sort_values fmt df group_cols label_col n = Inr r"
    unfolding bar_graph_def by (rule bar_graph_loop_total)
next
  assume "\<forall>c \<in> set group_cols. \<exists>ps ps'. groupby df c label_col = Inr ps \<and>
    groupby df' c label_col = Inr ps' \<and> mset ps = mset ps'"
  then have "\<forall>c \<in> set group_cols. grouped_table df c label_col = grouped_table df' c label_col"
    using grouped_table_mset by blast
  then show "bar_graph sort_values fmt df group_cols label_col n =
      bar_graph sort_values fmt df' group_cols label_col n"
    unfolding bar_graph_def by (rule bar_graph_loop_cong)
next
  assume "grouped_table df grp label_col =
    Inr [(g1, 8 / 10, 2 / 10), (g2, 3 / 10, 7 / 10), (g3, 9 / 10, 1 / 10)]"
  then show "bar_graph sort_values fmt df [grp] label_col 2 =
        Inr ([grp @ '': '' @ fmt g3, grp @ '': '' @ fmt g1], [9 / 10, 8 / 10])"
    using scenario_ranking [OF assms, of g1 g2 g3]
    by (simp add: bar_graph_def top_worst_def head_def)
qed

lemma scenario_table:
  "grouped_table scenario_frame ''education'' ''label'' =
     Inr [(1, 8 / 10, 2 / 10), (2, 3 / 10, 7 / 10), (3, 9 / 10, 1 / 10)]"
  by code_simp

lemma str_nat_digits: "str_nat (Suc 0) = ''1''" "str_nat 3 = ''3''"
  by code_simp+

theorem top_n_worst_groups_witness:
  "grouped_table scenario_frame ''education'' ''label'' =
     Inr [(1, 8 / 10, 2 / 10), (2, 3 / 10, 7 / 10), (3, 9 / 10, 1 / 10)] \<and>
   bar_graph sort_values_keeping_ties str_nat scenario_frame [''education''] ''label'' 2 =
     Inr ([''education: 3'', ''education: 1''], [9 / 10, 8 / 10]) \<and>
   bar_graph sort_values_reversing_ties str_nat scenario_frame [''education''] ''label'' 2 =
     Inr ([''education: 3'', ''education: 1''], [9 / 10, 8 / 10])"
proof -
  note k = top_n_worst_groups [OF sorts_descending_keeping_ties,
      of str_nat scenario_frame "[''education'']" "''label''" 2 "[]" "[]" scenario_frame
      "''education''" 1 2 3, THEN conjunct2, THEN conjunct2, THEN conjunct2, THEN mp,
      OF scenario_table]
  note r = top_n_worst_groups [OF sorts_descending_reversing_ties,
      of str_nat scenario_frame "[''education'']" "''label''" 2 "[]" "[]" scenario_frame
      "''education''" 1 2 3, THEN conjunct2, THEN conjunct2, THEN conjunct2, THEN mp,
      OF scenario_table]
  from k r scenario_table show ?thesis
    by (simp add: str_nat_digits)
qed

text \<open>
  C8 as the specification states it fails. The groups 1 and 2 have the same share 1/2.
  In one frame the rows of group 2 come first, in the other those of group 1, and both
  frames give the same table to the sort. If the sort puts group 1 first, the first frame
  has the group seen second in front; if it puts group 2 first, the second frame has.
\<close>

theorem tie_order_counterexample:
  "tie_frame ''education'' = Some [Some 2, Some 2, Some 1, Some 1] \<and>
   tie_frame_reordered ''education'' = Some [Some 1, Some 1, Some 2, Some 2] \<and>
   grouped_table tie_frame ''education'' ''label'' = Inr [(1, 1 / 2, 1 / 2), (2, 1 / 2, 1 / 2)] \<and>
   grouped_table tie_frame_reordered ''education'' ''label'' =
     Inr [(1, 1 / 2, 1 / 2), (2, 1 / 2, 1 / 2)] \<and>
   bar_graph sort_values_keeping_ties str_nat tie_frame [''education''] ''label'' 1 =
     Inr ([''education: 1''], [1 / 2]) \<and>
   bar_graph sort_values_reversing_ties str_nat tie_frame_reordered [''education''] ''label'' 1 =
     Inr ([''education: 2''], [1 / 2])"
  by code_simp

end
